theory Spec2Isabelle
  imports Complex_Main "HOL-Library.Sublist" "HOL-Library.Multiset" "HOL-Library.AList"
begin

section \<open>Python values\<close>

text \<open>
  A Python \<open>str\<close> is a sequence of Unicode code points; Isabelle's \<open>char\<close> has only 256
  values, so a string is modelled as the list of its code points. \<open>U ''abc''\<close> is
  the string whose characters are the ASCII characters of the literal.
\<close>

type_synonym pystr = "nat list"

abbreviation U :: "string \<Rightarrow> pystr" where
  "U s \<equiv> map of_char s"

text \<open>
  The exceptions that the code can meet. \<open>HttpError\<close> is the client library's own
  exception; \<open>OtherError\<close> stands for every other subclass of \<open>Exception\<close> that a
  remote call may raise (socket and protocol errors). Exceptions that are not
  subclasses of \<open>Exception\<close> (a keyboard interrupt) are outside the model.
\<close>

datatype error =
  HttpError | KeyError | TypeError | ValueError | AttributeError | OverflowError | OtherError

text \<open>
  The values that travel through the program: what a decoded JSON response holds
  (\<open>None\<close>, booleans, integers, floats, strings, lists, dictionaries) and what the
  program stores in its own dictionaries. A dictionary is an association list in
  insertion order, read with \<open>map_of\<close>. A Python \<open>int\<close> is unbounded, hence \<open>int\<close>.
  A Python \<open>float\<close> is a binary double; here it carries the exact rational value
  of the expression that produced it. The rounding of each operation to the
  nearest double, and the infinite result of an operation whose value is too
  large, are not modelled. What is proved below of a float is therefore only what
  holds of the rounded value as well: which branch of the code returns it, its
  sign, and its value where every step of the arithmetic is exact in doubles. The
  results on filtering and ordering speak of the scores that are attached,
  whatever their values.
\<close>

datatype pyval =
    PNone
  | PBool bool
  | PInt int
  | PFloat rat
  | PStr pystr
  | PList "pyval list"
  | PDict "(pystr \<times> pyval) list"

type_synonym pydict = "(pystr \<times> pyval) list"

text \<open>\<open>d[k]\<close> on a dictionary: the value, or \<open>KeyError\<close>.\<close>

definition dict_getitem :: "pydict \<Rightarrow> pystr \<Rightarrow> error + pyval" where
  "dict_getitem d k = (case map_of d k of None \<Rightarrow> Inl KeyError | Some v \<Rightarrow> Inr v)"

text \<open>
  \<open>x[k]\<close> with a string key on any value: only a dictionary can be subscripted by a
  string; a list or a string wants an integer index and everything else is not
  subscriptable, all of which raise \<open>TypeError\<close>.
\<close>

fun py_getitem :: "pyval \<Rightarrow> pystr \<Rightarrow> error + pyval" where
  "py_getitem (PDict d) k = dict_getitem d k"
| "py_getitem _ k = Inl TypeError"

text \<open>\<open>x.get(k, default)\<close>: a method of dictionaries only.\<close>

fun py_get :: "pyval \<Rightarrow> pystr \<Rightarrow> pyval \<Rightarrow> error + pyval" where
  "py_get (PDict d) k dflt = Inr (case map_of d k of None \<Rightarrow> dflt | Some v \<Rightarrow> v)"
| "py_get _ k dflt = Inl AttributeError"

text \<open>
  The number a value stands for in arithmetic and in comparisons with a number
  (\<open>bool\<close> is a subclass of \<open>int\<close>); \<open>None\<close> for the values on which these
  operations raise \<open>TypeError\<close>.
\<close>

fun as_number :: "pyval \<Rightarrow> rat option" where
  "as_number (PInt i) = Some (of_int i)"
| "as_number (PFloat r) = Some r"
| "as_number (PBool b) = Some (if b then 1 else 0)"
| "as_number _ = None"

text \<open>
  Conversion of an \<open>int\<close> to \<open>float\<close> rounds to the nearest double and raises
  \<open>OverflowError\<close> when the rounded value would reach \<open>2 ^ 1024\<close>, that is from
  \<open>2 ^ 1024 - 2 ^ 970\<close> on in absolute value.
\<close>

definition float_overflows :: "int \<Rightarrow> bool" where
  "float_overflows i \<longleftrightarrow> 2 ^ 1024 - 2 ^ 970 \<le> \<bar>i\<bar>"

text \<open>
  The left operand of a true division \<open>x / y\<close> by a float or by the integer 1:
  an \<open>int\<close> is converted (dividing it by the integer 1 raises in the same cases
  as the conversion does), a \<open>float\<close> is taken as it is, and a value that is not
  a number raises \<open>TypeError\<close>.
\<close>

fun to_float :: "pyval \<Rightarrow> error + rat" where
  "to_float (PInt i) = (if float_overflows i then Inl OverflowError else Inr (of_int i))"
| "to_float (PFloat r) = Inr r"
| "to_float (PBool b) = Inr (if b then 1 else 0)"
| "to_float _ = Inl TypeError"

text \<open>
  \<open>s.replace(old, new)\<close>: every non-overlapping occurrence of \<open>old\<close>, found from the
  left, is replaced. The first argument of the helper counts the characters of a
  matched occurrence that are still to be skipped. The program calls it with a
  non-empty \<open>old\<close> only, and the definition is meant for that case.
\<close>

fun str_replace_skip :: "nat \<Rightarrow> pystr \<Rightarrow> pystr \<Rightarrow> pystr \<Rightarrow> pystr" where
  "str_replace_skip k old new [] = []"
| "str_replace_skip (Suc k) old new (c # cs) = str_replace_skip k old new cs"
| "str_replace_skip 0 old new (c # cs) =
     (if prefix old (c # cs) then new @ str_replace_skip (length old - 1) old new cs
      else c # str_replace_skip 0 old new cs)"

definition str_replace :: "pystr \<Rightarrow> pystr \<Rightarrow> pystr \<Rightarrow> pystr" where
  "str_replace old new s = str_replace_skip 0 old new s"

text \<open>\<open>x.replace(old, new)\<close> on any value: only a string has the method.\<close>

fun py_replace :: "pyval \<Rightarrow> pystr \<Rightarrow> pystr \<Rightarrow> error + pystr" where
  "py_replace (PStr s) old new = Inr (str_replace old new s)"
| "py_replace _ old new = Inl AttributeError"

section \<open>Configuration and environment\<close>

text \<open>The two constants of \<open>config.py\<close>.\<close>

definition DEFAULT_MAX_RESULTS :: int where
  "DEFAULT_MAX_RESULTS = 50"

definition TRENDING_PERIOD_DAYS :: int where
  "TRENDING_PERIOD_DAYS = 14"

text \<open>
  A \<open>datetime\<close> is a count of microseconds since the epoch, either aware of its
  offset (then the count is of the UTC instant) or naive.
\<close>

datatype pydatetime = Aware int | Naive int

text \<open>The arguments of the keyword search request.\<close>

record search_request =
  req_q :: pystr
  req_part :: pystr
  req_type :: pystr
  req_maxResults :: int
  req_order :: pystr
  req_publishedAfter :: pystr

text \<open>
  What the program takes from outside itself:
  \<^item> \<open>clock\<close>: the reading of \<open>datetime.now(timezone.utc)\<close> at its \<open>n\<close>-th call, in
    microseconds;
  \<^item> \<open>fromisoformat\<close>: the standard library's parser, \<open>None\<close> where it raises
    \<open>ValueError\<close>;
  \<^item> \<open>isoformat\<close>: the standard library's rendering of an aware UTC datetime;
  \<^item> \<open>int_of_str\<close>: the builtin \<open>int\<close> on a string, \<open>None\<close> where it raises
    \<open>ValueError\<close>;
  \<^item> \<open>format_value\<close>: how an f-string renders a value that is not a string;
  \<^item> \<open>decimal\<close>: the Unicode table of decimal digits outside ASCII, giving the
    digit's value, \<open>None\<close> for every other character;
  \<^item> \<open>int_max_str_digits\<close>: the interpreter's limit on the number of digits of a
    string that \<open>int\<close> converts, 0 when there is no limit (recent interpreters
    start with 4300, older ones have none);
  \<^item> \<open>search_list\<close> and \<open>videos_list\<close>: the two remote calls, each returning the
    decoded response or raising.
\<close>

record env =
  clock :: "nat \<Rightarrow> int"
  fromisoformat :: "pystr \<Rightarrow> pydatetime option"
  isoformat :: "int \<Rightarrow> pystr"
  int_of_str :: "pystr \<Rightarrow> int option"
  format_value :: "pyval \<Rightarrow> pystr"
  decimal :: "nat \<Rightarrow> nat option"
  int_max_str_digits :: nat
  search_list :: "search_request \<Rightarrow> error + pyval"
  videos_list :: "pystr \<Rightarrow> pystr \<Rightarrow> error + pyval"

section \<open>The trending score\<close>

text \<open>
  \<open>(now - published_at).total_seconds() / 86400\<close>: the difference of two datetimes
  is a whole number of microseconds.
\<close>

definition days_between :: "int \<Rightarrow> int \<Rightarrow> rat" where
  "days_between now published_at = of_int (now - published_at) / 1000000 / 86400"

text \<open>
  \<open>calculate_trending_score\<close>, with the reading of the clock as an argument. The
  steps follow the source: read and parse \<open>published_at\<close> (a missing key, a value
  that is not a string, an unparsable string and a naive datetime each raise), test
  the age against zero and against the window, and only then read \<open>view_count\<close>.
  The division \<open>view_count / days_since_published\<close> raises \<open>TypeError\<close> for a
  view count that is not a number and \<open>OverflowError\<close> for an integer too large
  for a float; after it, \<open>view_count / 10000\<close> cannot raise. The two early exits
  return the integer \<open>0\<close>, the last line a float.
\<close>

definition calculate_trending_score :: "env \<Rightarrow> int \<Rightarrow> pydict \<Rightarrow> error + pyval" where
  "calculate_trending_score env now video =
    (case dict_getitem video (U ''published_at'') of
       Inl e \<Rightarrow> Inl e
     | Inr p \<Rightarrow>
    (case py_replace p (U ''Z'') (U ''+00:00'') of
       Inl e \<Rightarrow> Inl e
     | Inr s \<Rightarrow>
    (case fromisoformat env s of
       None \<Rightarrow> Inl ValueError
     | Some (Naive u) \<Rightarrow> Inl TypeError
     | Some (Aware published_at) \<Rightarrow>
         let days_since_published = days_between now published_at in
         if days_since_published < 0 then Inr (PInt 0)
         else if days_since_published > of_int TRENDING_PERIOD_DAYS then Inr (PInt 0)
         else
          (case dict_getitem video (U ''view_count'') of
             Inl e \<Rightarrow> Inl e
           | Inr vc \<Rightarrow>
          (case to_float vc of
             Inl e \<Rightarrow> Inl e
           | Inr view_count \<Rightarrow>
               let days = (if days_since_published < 1 then 1 else days_since_published);
                   views_per_day = view_count / days;
                   trending_score = views_per_day * (1 + view_count / 10000)
               in Inr (PFloat trending_score))))))"

section \<open>The query client\<close>

text \<open>Sequencing of steps that may raise: the first exception ends the computation.\<close>

definition bind_result :: "error + 'a \<Rightarrow> ('a \<Rightarrow> error + 'b) \<Rightarrow> error + 'b" where
  "bind_result m f = (case m of Inl e \<Rightarrow> Inl e | Inr x \<Rightarrow> f x)"

text \<open>
  Iterating over a value with \<open>for\<close>: a list gives its elements, a dictionary its
  keys, a string its characters; nothing else is iterable.
\<close>

fun py_iter :: "pyval \<Rightarrow> error + pyval list" where
  "py_iter (PList xs) = Inr xs"
| "py_iter (PDict d) = Inr (map (\<lambda>kv. PStr (fst kv)) d)"
| "py_iter (PStr s) = Inr (map (\<lambda>c. PStr [c]) s)"
| "py_iter _ = Inl TypeError"

text \<open>The comprehension \<open>[item["id"]["videoId"] for item in ...]\<close>.\<close>

fun video_ids_of :: "pyval list \<Rightarrow> error + pyval list" where
  "video_ids_of [] = Inr []"
| "video_ids_of (item # items) =
     bind_result (py_getitem item (U ''id'')) (\<lambda>i.
     bind_result (py_getitem i (U ''videoId'')) (\<lambda>video_id.
     bind_result (video_ids_of items) (\<lambda>video_ids.
     Inr (video_id # video_ids))))"

text \<open>\<open>sep.join(xs)\<close>: every element must be a string.\<close>

fun as_strs :: "pyval list \<Rightarrow> pystr list option" where
  "as_strs [] = Some []"
| "as_strs (PStr s # xs) = map_option ((#) s) (as_strs xs)"
| "as_strs (_ # xs) = None"

fun str_join :: "pystr \<Rightarrow> pystr list \<Rightarrow> pystr" where
  "str_join sep [] = []"
| "str_join sep [s] = s"
| "str_join sep (s # t # ss) = s @ sep @ str_join sep (t # ss)"

definition py_join :: "pystr \<Rightarrow> pyval list \<Rightarrow> error + pystr" where
  "py_join sep xs = (case as_strs xs of None \<Rightarrow> Inl TypeError | Some ss \<Rightarrow> Inr (str_join sep ss))"

text \<open>
  The builtin \<open>int\<close>: an integer is itself, a boolean is 0 or 1, a float is truncated
  towards zero, a string is parsed; \<open>None\<close>, lists and dictionaries raise \<open>TypeError\<close>.
\<close>

fun py_int :: "env \<Rightarrow> pyval \<Rightarrow> error + int" where
  "py_int env (PInt i) = Inr i"
| "py_int env (PBool b) = Inr (if b then 1 else 0)"
| "py_int env (PFloat r) = Inr (if 0 \<le> r then \<lfloor>r\<rfloor> else \<lceil>r\<rceil>)"
| "py_int env (PStr s) = (case int_of_str env s of None \<Rightarrow> Inl ValueError | Some i \<Rightarrow> Inr i)"
| "py_int env _ = Inl TypeError"

text \<open>A value inside an f-string: a string is inserted as it is.\<close>

fun py_format :: "env \<Rightarrow> pyval \<Rightarrow> pystr" where
  "py_format env (PStr s) = s"
| "py_format env x = format_value env x"

text \<open>
  The dictionary built for one item of the details response, its eight entries
  evaluated in the order of the source.
\<close>

definition video_info :: "env \<Rightarrow> pyval \<Rightarrow> error + pydict" where
  "video_info env video =
     bind_result (py_getitem video (U ''id'')) (\<lambda>video_id.
     bind_result (bind_result (py_getitem video (U ''snippet'')) (\<lambda>sn. py_getitem sn (U ''title''))) (\<lambda>title.
     bind_result (bind_result (py_getitem video (U ''snippet'')) (\<lambda>sn. py_getitem sn (U ''channelTitle''))) (\<lambda>channel_title.
     bind_result (bind_result (py_getitem video (U ''snippet'')) (\<lambda>sn. py_getitem sn (U ''publishedAt''))) (\<lambda>published_at.
     bind_result (bind_result (bind_result (py_getitem video (U ''statistics''))
                    (\<lambda>st. py_get st (U ''viewCount'') (PInt 0))) (py_int env)) (\<lambda>view_count.
     bind_result (bind_result (bind_result (py_getitem video (U ''statistics''))
                    (\<lambda>st. py_get st (U ''likeCount'') (PInt 0))) (py_int env)) (\<lambda>like_count.
     bind_result (bind_result (py_getitem video (U ''contentDetails'')) (\<lambda>cd. py_getitem cd (U ''duration''))) (\<lambda>duration.
     Inr [(U ''video_id'', video_id),
          (U ''title'', title),
          (U ''channel_title'', channel_title),
          (U ''published_at'', published_at),
          (U ''view_count'', PInt view_count),
          (U ''like_count'', PInt like_count),
          (U ''duration'', duration),
          (U ''url'', PStr (U ''https://www.youtube.com/watch?v='' @ py_format env video_id))])))))))"

text \<open>The loop that appends one dictionary per item.\<close>

fun video_infos :: "env \<Rightarrow> pyval list \<Rightarrow> error + pydict list" where
  "video_infos env [] = Inr []"
| "video_infos env (video # rest) =
     bind_result (video_info env video) (\<lambda>info.
     bind_result (video_infos env rest) (\<lambda>infos.
     Inr (info # infos)))"

text \<open>The keys of such a dictionary, in order.\<close>

definition video_keys :: "pystr list" where
  "video_keys = [U ''video_id'', U ''title'', U ''channel_title'', U ''published_at'',
                 U ''view_count'', U ''like_count'', U ''duration'', U ''url'']"

text \<open>
  What the program does to the outside: the two remote calls with their arguments,
  and the message printed by each of the two exception handlers (the handler for
  \<open>HttpError\<close> and the one for any other exception).
\<close>

datatype event =
    SearchCall search_request
  | VideosCall pystr pystr
  | PrintApiError
  | PrintError error

definition handle_error :: "error \<Rightarrow> event list \<Rightarrow> pydict list \<times> event list" where
  "handle_error e trace =
     (case e of HttpError \<Rightarrow> ([], trace @ [PrintApiError]) | _ \<Rightarrow> ([], trace @ [PrintError e]))"

text \<open>\<open>timedelta(days=config.TRENDING_PERIOD_DAYS)\<close>, in microseconds.\<close>

definition trending_period :: int where
  "trending_period = TRENDING_PERIOD_DAYS * 86400000000"

text \<open>
  The search request: videos matching the keyword, by relevance, published after
  the reading of the clock minus the trending period, rendered with \<open>Z\<close> in place
  of the offset.
\<close>

definition search_request_for :: "env \<Rightarrow> pystr \<Rightarrow> int \<Rightarrow> search_request" where
  "search_request_for env keyword max_results =
    (let published_after =
           str_replace (U ''+00:00'') (U ''Z'') (isoformat env (clock env 0 - trending_period))
     in \<lparr>req_q = keyword, req_part = U ''id,snippet'', req_type = U ''video'',
         req_maxResults = max_results, req_order = U ''relevance'',
         req_publishedAfter = published_after\<rparr>)"

text \<open>\<open>[item["id"]["videoId"] for item in search_response.get("items", [])]\<close>.\<close>

definition extract_video_ids :: "pyval \<Rightarrow> error + pyval list" where
  "extract_video_ids search_response =
     bind_result (py_get search_response (U ''items'') (PList [])) (\<lambda>items.
     bind_result (py_iter items) video_ids_of)"

text \<open>The loop over \<open>videos_response.get("items", [])\<close>.\<close>

definition extract_videos :: "env \<Rightarrow> pyval \<Rightarrow> error + pydict list" where
  "extract_videos env videos_response =
     bind_result (py_get videos_response (U ''items'') (PList [])) (\<lambda>items.
     bind_result (py_iter items) (video_infos env))"

text \<open>
  \<open>search_videos\<close> returns its list together with the events it caused, in order.
  The whole body is inside the \<open>try\<close>, so every exception ends in a handler, which
  prints and returns the empty list. The clock is read once, first.
\<close>

definition search_videos :: "env \<Rightarrow> pystr \<Rightarrow> int \<Rightarrow> pydict list \<times> event list" where
  "search_videos env keyword max_results =
    (let request = search_request_for env keyword max_results;
         trace1 = [SearchCall request]
     in case search_list env request of
          Inl e \<Rightarrow> handle_error e trace1
        | Inr search_response \<Rightarrow>
         (case extract_video_ids search_response of
            Inl e \<Rightarrow> handle_error e trace1
          | Inr video_ids \<Rightarrow>
              if video_ids = [] then ([], trace1)
              else
               (case py_join (U '','') video_ids of
                  Inl e \<Rightarrow> handle_error e trace1
                | Inr ids \<Rightarrow>
                   (let part = U ''statistics,snippet,contentDetails'';
                        trace2 = trace1 @ [VideosCall part ids]
                    in case videos_list env part ids of
                         Inl e \<Rightarrow> handle_error e trace2
                       | Inr videos_response \<Rightarrow>
                          (case extract_videos env videos_response of
                             Inl e \<Rightarrow> handle_error e trace2
                           | Inr videos \<Rightarrow> (videos, trace2))))))"

section \<open>The trend ranker\<close>

text \<open>
  The loop \<open>for video in videos: video["trending_score"] = ...\<close>. Each call of
  \<open>calculate_trending_score\<close> reads the clock anew: the \<open>i\<close>-th reading serves the
  first record, the next one the second, and so on. Assignment to a key of a
  dictionary replaces the value in place when the key is there and appends the
  entry otherwise. An exception in the loop leaves \<open>find_trending_videos\<close> at once.
\<close>

fun attach_scores :: "env \<Rightarrow> nat \<Rightarrow> pydict list \<Rightarrow> error + pydict list" where
  "attach_scores env i [] = Inr []"
| "attach_scores env i (video # videos) =
     bind_result (calculate_trending_score env (clock env i) video) (\<lambda>score.
     bind_result (attach_scores env (Suc i) videos) (\<lambda>rest.
     Inr (AList.update (U ''trending_score'') score video # rest)))"

text \<open>
  The comprehension \<open>[v for v in videos if v["trending_score"] >= min_trending_score]\<close>:
  the comparison with a number raises \<open>TypeError\<close> for a value that is not one.
\<close>

fun keep_trending :: "rat \<Rightarrow> pydict list \<Rightarrow> error + pydict list" where
  "keep_trending min_trending_score [] = Inr []"
| "keep_trending min_trending_score (v # vs) =
     bind_result (dict_getitem v (U ''trending_score'')) (\<lambda>x.
     (case as_number x of
        None \<Rightarrow> Inl TypeError
      | Some score \<Rightarrow>
          bind_result (keep_trending min_trending_score vs) (\<lambda>rest.
          Inr (if score \<ge> min_trending_score then v # rest else rest))))"

text \<open>
  The sort key \<open>lambda x: x["trending_score"]\<close>, as a number. \<open>sorted\<close> applies it
  only to records that have passed the comparison above, so the key is present and
  is a number; the value 0 for the other cases is never used by the program.
\<close>

definition trending_key :: "pydict \<Rightarrow> rat" where
  "trending_key v =
     (case map_of v (U ''trending_score'') of
        None \<Rightarrow> 0
      | Some x \<Rightarrow> (case as_number x of None \<Rightarrow> 0 | Some score \<Rightarrow> score))"

text \<open>
  \<open>sorted(xs, key=f, reverse=True)\<close> is stable: it orders by decreasing key and keeps
  records of equal key in their original order, which is what sorting the reversed
  list stably by increasing key and reversing the result gives.
\<close>

definition sorted_reverse :: "('a \<Rightarrow> rat) \<Rightarrow> 'a list \<Rightarrow> 'a list" where
  "sorted_reverse f xs = rev (sort_key f (rev xs))"

definition find_trending_videos ::
    "env \<Rightarrow> pystr \<Rightarrow> int \<Rightarrow> rat \<Rightarrow> (error + pydict list) \<times> event list" where
  "find_trending_videos env keyword max_results min_trending_score =
     (let (videos, trace) = search_videos env keyword max_results
      in (bind_result (attach_scores env 1 videos) (\<lambda>scored.
          bind_result (keep_trending min_trending_score scored) (\<lambda>kept.
          Inr (sorted_reverse trending_key kept))), trace))"

section \<open>Records that can be scored\<close>

text \<open>
  Two properties of a record on which \<open>calculate_trending_score\<close> returns: its
  \<open>published_at\<close> is a string that parses to an aware datetime, and its
  \<open>view_count\<close> is an integer that a float can hold.
\<close>

definition parsable :: "env \<Rightarrow> pydict \<Rightarrow> bool" where
  "parsable env video \<longleftrightarrow>
     (\<exists>s t. map_of video (U ''published_at'') = Some (PStr s)
          \<and> fromisoformat env (str_replace (U ''Z'') (U ''+00:00'') s) = Some (Aware t))"

definition int_view_count :: "pydict \<Rightarrow> bool" where
  "int_view_count video \<longleftrightarrow>
     (\<exists>n. map_of video (U ''view_count'') = Some (PInt n) \<and> \<not> float_overflows n)"

section \<open>The duration formatter\<close>

text \<open>
  \<open>\d\<close> in a pattern on \<open>str\<close> matches every Unicode decimal digit, and \<open>int\<close> reads
  each such digit by its value. Among the ASCII characters the digits are \<open>0\<close> to
  \<open>9\<close> (code points 48 to 57); for the others the table of the environment decides.
\<close>

definition digit_value :: "env \<Rightarrow> nat \<Rightarrow> nat option" where
  "digit_value env c =
     (if 48 \<le> c \<and> c \<le> 57 then Some (c - 48)
      else if c < 128 then None
      else decimal env c)"

definition is_digit :: "env \<Rightarrow> nat \<Rightarrow> bool" where
  "is_digit env c = (digit_value env c \<noteq> None)"

text \<open>The positional value of a string of decimal digits.\<close>

definition int_of_digits :: "env \<Rightarrow> pystr \<Rightarrow> nat" where
  "int_of_digits env ds =
     foldl (\<lambda>acc c. 10 * acc + (case digit_value env c of None \<Rightarrow> 0 | Some d \<Rightarrow> d)) 0 ds"

text \<open>The decimal rendering of a non-negative integer, as \<open>f"{hours}"\<close> gives it.\<close>

fun str_of_nat :: "nat \<Rightarrow> pystr" where
  "str_of_nat n = (if n < 10 then [48 + n] else str_of_nat (n div 10) @ [48 + n mod 10])"

declare str_of_nat.simps [simp del]

text \<open>
  One optional group \<open>(?:(\d+)X)?\<close> of the pattern, tried at the front of \<open>s\<close>. The
  group is greedy: \<open>\d+\<close> takes the whole run of digits, and giving digits back
  cannot help, since the character after a shorter run is a digit and not the
  unit letter. So the group matches exactly when a non-empty run of digits is
  followed by the letter, capturing the run; otherwise it matches the empty string
  and captures nothing. The rest of the pattern is optional as well and the
  pattern is not anchored at the end, so the first choice never has to be revised.
\<close>

definition opt_group :: "env \<Rightarrow> nat \<Rightarrow> pystr \<Rightarrow> pystr option \<times> pystr" where
  "opt_group env unit s =
     (let ds = takeWhile (is_digit env) s
      in case dropWhile (is_digit env) s of
           [] \<Rightarrow> (None, s)
         | c # rest \<Rightarrow> if ds \<noteq> [] \<and> c = unit then (Some ds, rest) else (None, s))"

text \<open>
  \<open>int(match.group(i) or 0)\<close>: 0 for a group that took no part in the match; for
  a captured run of digits its value, or \<open>ValueError\<close> when the run is longer than
  the interpreter's limit (every digit counts, leading zeros too).
\<close>

definition group_int :: "env \<Rightarrow> pystr option \<Rightarrow> error + nat" where
  "group_int env g =
     (case g of
        None \<Rightarrow> Inr 0
      | Some ds \<Rightarrow>
          if 0 < int_max_str_digits env \<and> int_max_str_digits env < length ds
          then Inl ValueError
          else Inr (int_of_digits env ds))"

text \<open>
  The unit words of the output: hours (U+6642 U+9593), minutes (U+5206) and
  seconds (U+79D2).
\<close>

definition unit_hours :: pystr where
  "unit_hours = [26178, 38291]"

definition unit_minutes :: pystr where
  "unit_minutes = [20998]"

definition unit_seconds :: pystr where
  "unit_seconds = [31186]"

text \<open>
  \<open>format_duration\<close>. \<open>re.match\<close> looks for the pattern at the start of the string
  only, and every part of the pattern after the literal \<open>PT\<close> may match the empty
  string: there is a match exactly when the string starts with \<open>PT\<close>. The three
  conversions follow in the order of the source, and the first that raises ends
  the call. The numbers have no more digits than the strings they were read from,
  so rendering them does not meet the limit again.
\<close>

definition format_duration :: "env \<Rightarrow> pystr \<Rightarrow> error + pystr" where
  "format_duration env duration_str =
     (if \<not> prefix (U ''PT'') duration_str then Inr duration_str
      else
        let (g1, s1) = opt_group env (of_char CHR ''H'') (drop 2 duration_str);
            (g2, s2) = opt_group env (of_char CHR ''M'') s1;
            (g3, s3) = opt_group env (of_char CHR ''S'') s2
        in bind_result (group_int env g1) (\<lambda>hours.
           bind_result (group_int env g2) (\<lambda>minutes.
           bind_result (group_int env g3) (\<lambda>seconds.
             let parts = (if hours > 0 then [str_of_nat hours @ unit_hours] else [])
                       @ (if minutes > 0 then [str_of_nat minutes @ unit_minutes] else [])
                       @ (if seconds > 0 then [str_of_nat seconds @ unit_seconds] else [])
             in Inr (if parts \<noteq> [] then concat parts else U ''0'' @ unit_seconds)))))"

section \<open>Durations in the expected notation\<close>

text \<open>
  The notions used below to speak about the inputs that \<open>format_duration\<close> is
  written for: a component is a non-empty run of the digits \<open>0\<close> to \<open>9\<close> followed
  by its unit letter, or is absent; its value is the run read in base ten; it is
  within the limit when the interpreter accepts a run of its length; its
  rendering is the value in decimal followed by the unit word, or nothing when the
  value is 0.
\<close>

definition ascii_digits :: "pystr \<Rightarrow> bool" where
  "ascii_digits ds \<longleftrightarrow> ds \<noteq> [] \<and> (\<forall>c \<in> set ds. 48 \<le> c \<and> c \<le> 57)"

definition decimal_value :: "pystr \<Rightarrow> nat" where
  "decimal_value ds = foldl (\<lambda>acc c. 10 * acc + (c - 48)) 0 ds"

definition component :: "pystr option \<Rightarrow> pystr \<Rightarrow> pystr" where
  "component g unit = (case g of None \<Rightarrow> [] | Some ds \<Rightarrow> ds @ unit)"

definition component_value :: "pystr option \<Rightarrow> nat" where
  "component_value g = (case g of None \<Rightarrow> 0 | Some ds \<Rightarrow> decimal_value ds)"

definition well_formed :: "pystr option \<Rightarrow> bool" where
  "well_formed g = (case g of None \<Rightarrow> True | Some ds \<Rightarrow> ascii_digits ds)"

definition within_limit :: "env \<Rightarrow> pystr option \<Rightarrow> bool" where
  "within_limit env g =
     (case g of
        None \<Rightarrow> True
      | Some ds \<Rightarrow> int_max_str_digits env = 0 \<or> length ds \<le> int_max_str_digits env)"

definition render :: "nat \<Rightarrow> pystr \<Rightarrow> pystr" where
  "render n unit = (if n > 0 then str_of_nat n @ unit else [])"

section \<open>Sample data\<close>

text \<open>
  A small environment at which the general results below are exercised: a parser
  that knows one timestamp (midnight of 1 January 2024 UTC), a clock that stands
  half a day after it, and a remote service that knows two videos, \<open>A\<close> with
  20000 views and \<open>B\<close> with none.
\<close>

definition sample_epoch :: int where
  "sample_epoch = 1704067200000000"

definition sample_clock :: "nat \<Rightarrow> int" where
  "sample_clock n = sample_epoch + 43200000000"

definition sample_fromisoformat :: "pystr \<Rightarrow> pydatetime option" where
  "sample_fromisoformat s =
     (if s = U ''2024-01-01T00:00:00+00:00'' then Some (Aware sample_epoch) else None)"

definition sample_isoformat :: "int \<Rightarrow> pystr" where
  "sample_isoformat t = U ''2023-12-18T12:00:00+00:00''"

definition sample_int_of_str :: "pystr \<Rightarrow> int option" where
  "sample_int_of_str s =
     (if s = U ''20000'' then Some 20000 else if s = U ''0'' then Some 0 else None)"

definition sample_format_value :: "pyval \<Rightarrow> pystr" where
  "sample_format_value x = U ''None''"

definition sample_decimal :: "nat \<Rightarrow> nat option" where
  "sample_decimal c = None"

definition sample_search_response :: pyval where
  "sample_search_response =
     PDict [(U ''items'',
       PList [PDict [(U ''id'', PDict [(U ''videoId'', PStr (U ''A''))])],
              PDict [(U ''id'', PDict [(U ''videoId'', PStr (U ''B''))])]])]"

definition sample_item :: "string \<Rightarrow> string \<Rightarrow> pyval" where
  "sample_item video_id views =
     PDict [(U ''id'', PStr (U video_id)),
            (U ''snippet'', PDict [(U ''title'', PStr (U ''t'')),
                                   (U ''channelTitle'', PStr (U ''c'')),
                                   (U ''publishedAt'', PStr (U ''2024-01-01T00:00:00Z''))]),
            (U ''statistics'', PDict [(U ''viewCount'', PStr (U views))]),
            (U ''contentDetails'', PDict [(U ''duration'', PStr (U ''PT1H2M10S''))])]"

definition sample_videos_response :: pyval where
  "sample_videos_response =
     PDict [(U ''items'', PList [sample_item ''B'' ''0'', sample_item ''A'' ''20000''])]"

definition sample_search_list :: "search_request \<Rightarrow> error + pyval" where
  "sample_search_list request = Inr sample_search_response"

definition sample_videos_list :: "pystr \<Rightarrow> pystr \<Rightarrow> error + pyval" where
  "sample_videos_list part ids = Inr sample_videos_response"

definition sample_env :: env where
  "sample_env =
     \<lparr>clock = sample_clock, fromisoformat = sample_fromisoformat,
      isoformat = sample_isoformat, int_of_str = sample_int_of_str,
      format_value = sample_format_value, decimal = sample_decimal,
      int_max_str_digits = 4300,
      search_list = sample_search_list, videos_list = sample_videos_list\<rparr>"

text \<open>The record that \<open>search_videos\<close> builds for video \<open>A\<close>.\<close>

definition sample_video :: pydict where
  "sample_video =
     [(U ''video_id'', PStr (U ''A'')),
      (U ''title'', PStr (U ''t'')),
      (U ''channel_title'', PStr (U ''c'')),
      (U ''published_at'', PStr (U ''2024-01-01T00:00:00Z'')),
      (U ''view_count'', PInt 20000),
      (U ''like_count'', PInt 0),
      (U ''duration'', PStr (U ''PT1H2M10S'')),
      (U ''url'', PStr (U ''https://www.youtube.com/watch?v=A''))]"

text \<open>The record for video \<open>B\<close>, and the record for \<open>A\<close> with its score attached.\<close>

definition sample_video_B :: pydict where
  "sample_video_B =
     [(U ''video_id'', PStr (U ''B'')),
      (U ''title'', PStr (U ''t'')),
      (U ''channel_title'', PStr (U ''c'')),
      (U ''published_at'', PStr (U ''2024-01-01T00:00:00Z'')),
      (U ''view_count'', PInt 0),
      (U ''like_count'', PInt 0),
      (U ''duration'', PStr (U ''PT1H2M10S'')),
      (U ''url'', PStr (U ''https://www.youtube.com/watch?v=B''))]"

definition sample_scored :: pydict where
  "sample_scored = sample_video @ [(U ''trending_score'', PFloat 60000)]"

text \<open>The record for \<open>B\<close> with its score attached.\<close>

definition sample_scored_B :: pydict where
  "sample_scored_B = sample_video_B @ [(U ''trending_score'', PFloat 0)]"

text \<open>Remote calls that fail, and a search that finds nothing.\<close>

definition failing_search_list :: "search_request \<Rightarrow> error + pyval" where
  "failing_search_list request = Inl HttpError"

definition failing_videos_list :: "pystr \<Rightarrow> pystr \<Rightarrow> error + pyval" where
  "failing_videos_list part ids = Inl OtherError"

definition empty_search_list :: "search_request \<Rightarrow> error + pyval" where
  "empty_search_list request = Inr (PDict [(U ''items'', PList [])])"

definition failing_search_env :: env where
  "failing_search_env = sample_env\<lparr>search_list := failing_search_list\<rparr>"

definition failing_videos_env :: env where
  "failing_videos_env = sample_env\<lparr>videos_list := failing_videos_list\<rparr>"

definition empty_search_env :: env where
  "empty_search_env = sample_env\<lparr>search_list := empty_search_list\<rparr>"

definition day :: int where
  "day = 86400000000"

section \<open>Results on the trending score\<close>

lemma sample_published_at:
  "map_of sample_video (U ''published_at'') = Some (PStr (U ''2024-01-01T00:00:00Z''))"
  by (simp add: sample_video_def)

lemma sample_view_count: "map_of sample_video (U ''view_count'') = Some (PInt 20000)"
  by (simp add: sample_video_def)

lemma sample_parse:
  "fromisoformat sample_env (str_replace (U ''Z'') (U ''+00:00'') (U ''2024-01-01T00:00:00Z''))
     = Some (Aware sample_epoch)"
  by (simp add: sample_env_def sample_fromisoformat_def str_replace_def)

lemma sample_half_day_after: "days_between (sample_epoch + 43200000000) sample_epoch = 1 / 2"
  by (simp add: days_between_def)



lemma sample_fifteen_days_after: "days_between (sample_epoch + 15 * day) sample_epoch = 15"
  by (simp add: days_between_def day_def)

lemma float_overflows_20000: "\<not> float_overflows 20000"
  by (simp add: float_overflows_def)

lemma float_overflows_0: "\<not> float_overflows 0"
  by (simp add: float_overflows_def)

text \<open>The sample record, half a day after its publication.\<close>

lemma sample_score_half_day:
  "calculate_trending_score sample_env (sample_epoch + 43200000000) sample_video
     = Inr (PFloat 60000)"
  using sample_published_at sample_parse sample_view_count
  by (simp add: calculate_trending_score_def dict_getitem_def Let_def sample_half_day_after
        TRENDING_PERIOD_DAYS_def float_overflows_20000)

text \<open>A number that converts to a float keeps its value.\<close>

lemma to_float_as_number: "to_float vc = Inr x \<Longrightarrow> as_number vc = Some x"
  by (cases vc) (simp_all split: if_splits)

text \<open>
  Whatever the record, a score that is returned is either the integer 0 of an early
  exit or the float of the last line, which is not negative when the view count
  is not.
\<close>

lemma calculate_trending_score_shape:
  assumes "calculate_trending_score env now video = Inr p"
  shows "p = PInt 0 \<or>
         (\<exists>vc x y. map_of video (U ''view_count'') = Some vc \<and> to_float vc = Inr x
                   \<and> p = PFloat y \<and> (0 \<le> x \<longrightarrow> 0 \<le> y))"
proof -
  from assms obtain pv s t where pv: "map_of video (U ''published_at'') = Some pv"
    and s: "py_replace pv (U ''Z'') (U ''+00:00'') = Inr s"
    and t: "fromisoformat env s = Some (Aware t)"
    by (auto simp add: calculate_trending_score_def dict_getitem_def
          split: sum.splits option.splits pydatetime.splits)
  let ?d = "days_between now t"
  show ?thesis
  proof (cases "?d < 0 \<or> 14 < ?d")
    case True
    with assms pv s t have "p = PInt 0"
      by (auto simp add: calculate_trending_score_def dict_getitem_def Let_def
            TRENDING_PERIOD_DAYS_def)
    then show ?thesis by simp
  next
    case False
    with assms pv s t obtain vc x where vc: "map_of video (U ''view_count'') = Some vc"
      and x: "to_float vc = Inr x"
      and p: "p = PFloat (x / (if ?d < 1 then 1 else ?d) * (1 + x / 10000))"
      by (auto simp add: calculate_trending_score_def dict_getitem_def Let_def
            TRENDING_PERIOD_DAYS_def split: sum.splits option.splits if_splits)
    have "0 \<le> x \<longrightarrow> 0 \<le> x / (if ?d < 1 then 1 else ?d) * (1 + x / 10000)"
      by simp
    with vc x p show ?thesis by blast
  qed
qed


text \<open>
  Claim C2. For a record whose \<open>published_at\<close> parses to an aware datetime and lies
  in the future (age below 0) or more than 14 days in the past, the score is the
  integer 0, whatever else the record holds.
\<close>

theorem calculate_trending_score_outside_window:
  assumes "map_of video (U ''published_at'') = Some (PStr s)"
    and "fromisoformat env (str_replace (U ''Z'') (U ''+00:00'') s) = Some (Aware t)"
    and "days_between now t < 0 \<or> days_between now t > 14"
  shows "calculate_trending_score env now video = Inr (PInt 0)"
  using assms
  by (auto simp add: calculate_trending_score_def dict_getitem_def TRENDING_PERIOD_DAYS_def
        Let_def)

theorem calculate_trending_score_outside_window_witness:
  "days_between (sample_epoch + 15 * day) sample_epoch = 15
   \<and> calculate_trending_score sample_env (sample_epoch + 15 * day) sample_video = Inr (PInt 0)"
  using calculate_trending_score_outside_window [OF sample_published_at sample_parse,
          of "sample_epoch + 15 * day"]
  by (simp add: sample_fifteen_days_after)




text \<open>
  Claim C7. For a record with a non-negative integer \<open>view_count\<close>, every score that
  \<open>calculate_trending_score\<close> returns is a number that is at least 0, on the early
  exits and on the formula alike.
\<close>

theorem calculate_trending_score_nonneg:
  assumes "map_of video (U ''view_count'') = Some (PInt v)" and "0 \<le> v"
  shows "\<forall>p. calculate_trending_score env now video = Inr p \<longrightarrow>
              (\<exists>x. as_number p = Some x \<and> 0 \<le> x)"
proof (intro allI impI)
  fix p
  assume r: "calculate_trending_score env now video = Inr p"
  from calculate_trending_score_shape [OF r] show "\<exists>x. as_number p = Some x \<and> 0 \<le> x"
  proof (elim disjE exE conjE)
    assume "p = PInt 0"
    then show ?thesis by simp
  next
    fix vc x y
    assume vc: "map_of video (U ''view_count'') = Some vc" and x: "to_float vc = Inr x"
      and p: "p = PFloat y" and y: "0 \<le> x \<longrightarrow> 0 \<le> y"
    from vc x assms have "0 \<le> x" by (auto split: if_splits)
    with y p show ?thesis by simp
  qed
qed

theorem calculate_trending_score_nonneg_witness:
  "calculate_trending_score sample_env (sample_epoch + 43200000000) sample_video
     = Inr (PFloat 60000)
   \<and> (\<exists>x. as_number (PFloat 60000) = Some x \<and> 0 \<le> x)"
proof -
  have v: "(0::int) \<le> 20000" by simp
  from calculate_trending_score_nonneg [OF sample_view_count v,
         of sample_env "sample_epoch + 43200000000"] sample_score_half_day
  show ?thesis by blast
qed

text \<open>
  Claim C8. A record with 20000 views whose age is at least 0 and below one day
  scores \<open>20000 \<times> (1 + 2) = 60000\<close>.
\<close>

theorem calculate_trending_score_20000:
  assumes "map_of video (U ''published_at'') = Some (PStr s)"
    and "fromisoformat env (str_replace (U ''Z'') (U ''+00:00'') s) = Some (Aware t)"
    and "map_of video (U ''view_count'') = Some (PInt 20000)"
    and "0 \<le> days_between now t" and "days_between now t < 1"
  shows "calculate_trending_score env now video = Inr (PFloat 60000)"
  using assms
  by (simp add: calculate_trending_score_def dict_getitem_def TRENDING_PERIOD_DAYS_def
        Let_def float_overflows_20000)

theorem calculate_trending_score_20000_witness:
  "days_between (sample_epoch + 43200000000) sample_epoch = 1 / 2
   \<and> calculate_trending_score sample_env (sample_epoch + 43200000000) sample_video =
       Inr (PFloat 60000)"
  using calculate_trending_score_20000 [OF sample_published_at sample_parse sample_view_count,
          of "sample_epoch + 43200000000"]
  by (simp add: sample_half_day_after)

section \<open>Results on the query client\<close>

lemma bind_result_Inr: "bind_result m f = Inr y \<longleftrightarrow> (\<exists>x. m = Inr x \<and> f x = Inr y)"
  by (cases m) (simp_all add: bind_result_def)

lemma dict_getitem_Inr: "dict_getitem d k = Inr x \<longleftrightarrow> map_of d k = Some x"
  by (simp add: dict_getitem_def split: option.splits)

lemma fst_handle_error: "fst (handle_error e trace) = []"
  by (simp add: handle_error_def split: error.splits)

lemma snd_handle_error:
  "set (snd (handle_error e trace)) =
     set trace \<union> {if e = HttpError then PrintApiError else PrintError e}"
  by (simp add: handle_error_def split: error.splits)

text \<open>The sample service, step by step.\<close>

lemma sample_extract_ids:
  "extract_video_ids sample_search_response = Inr [PStr (U ''A''), PStr (U ''B'')]"
  by (simp add: extract_video_ids_def sample_search_response_def bind_result_def dict_getitem_def)

lemma sample_join: "py_join (U '','') [PStr (U ''A''), PStr (U ''B'')] = Inr (U ''A,B'')"
  by (simp add: py_join_def)

lemma sample_info_A: "video_info sample_env (sample_item ''A'' ''20000'') = Inr sample_video"
  by (simp add: video_info_def sample_item_def bind_result_def dict_getitem_def
        sample_env_def sample_int_of_str_def sample_video_def)

lemma sample_info_B: "video_info sample_env (sample_item ''B'' ''0'') = Inr sample_video_B"
  by (simp add: video_info_def sample_item_def bind_result_def dict_getitem_def
        sample_env_def sample_int_of_str_def sample_video_B_def)

lemma sample_extract_videos:
  "extract_videos sample_env sample_videos_response = Inr [sample_video_B, sample_video]"
  by (simp add: extract_videos_def sample_videos_response_def bind_result_def
        sample_info_A sample_info_B)

lemma sample_search_videos:
  "search_videos sample_env keyword max_results =
     ([sample_video_B, sample_video],
      [SearchCall (search_request_for sample_env keyword max_results),
       VideosCall (U ''statistics,snippet,contentDetails'') (U ''A,B'')])"
proof -
  have 1: "search_list sample_env (search_request_for sample_env keyword max_results)
             = Inr sample_search_response"
    by (simp add: sample_env_def sample_search_list_def)
  have 2: "videos_list sample_env (U ''statistics,snippet,contentDetails'') (U ''A,B'')
             = Inr sample_videos_response"
    by (simp add: sample_env_def sample_videos_list_def)
  show ?thesis
    unfolding search_videos_def Let_def 1 sum.case sample_extract_ids
    using sample_join 2 sample_extract_videos by simp
qed

text \<open>
  Claim C5. If the search call raises, or if the details call that was issued
  raises, whatever the exception, \<open>search_videos\<close> returns the empty list. That no
  exception leaves \<open>search_videos\<close> is in its type: it returns a list in every
  case, each exception of its body ending in one of the two handlers.
\<close>

theorem search_videos_remote_error:
  assumes "search_list env (search_request_for env keyword max_results) = Inl e
           \<or> (\<exists>part ids. VideosCall part ids \<in> set (snd (search_videos env keyword max_results))
                  \<and> videos_list env part ids = Inl e)"
  shows "fst (search_videos env keyword max_results) = []"
  using assms
  by (auto simp add: search_videos_def Let_def fst_handle_error snd_handle_error
        split: sum.splits if_splits)

lemma failing_videos_trace:
  "search_videos failing_videos_env keyword max_results =
     ([], [SearchCall (search_request_for failing_videos_env keyword max_results),
           VideosCall (U ''statistics,snippet,contentDetails'') (U ''A,B''),
           PrintError OtherError])"
proof -
  have 1: "search_list failing_videos_env (search_request_for failing_videos_env keyword max_results)
             = Inr sample_search_response"
    by (simp add: failing_videos_env_def sample_env_def sample_search_list_def)
  have 2: "videos_list failing_videos_env (U ''statistics,snippet,contentDetails'') (U ''A,B'')
             = Inl OtherError"
    by (simp add: failing_videos_env_def failing_videos_list_def)
  show ?thesis
    unfolding search_videos_def Let_def 1 sum.case sample_extract_ids
    using sample_join 2 by (simp add: handle_error_def)
qed

theorem search_videos_remote_error_witness:
  "search_list failing_search_env (search_request_for failing_search_env (U ''x'') 50)
     = Inl HttpError
   \<and> fst (search_videos failing_search_env (U ''x'') 50) = []
   \<and> videos_list failing_videos_env (U ''statistics,snippet,contentDetails'') (U ''A,B'')
       = Inl OtherError
   \<and> fst (search_videos failing_videos_env (U ''x'') 50) = []"
proof -
  have 1: "search_list failing_search_env (search_request_for failing_search_env (U ''x'') 50)
             = Inl HttpError"
    by (simp add: failing_search_env_def failing_search_list_def)
  have 2: "videos_list failing_videos_env (U ''statistics,snippet,contentDetails'') (U ''A,B'')
             = Inl OtherError"
    by (simp add: failing_videos_env_def failing_videos_list_def)
  have 3: "VideosCall (U ''statistics,snippet,contentDetails'') (U ''A,B'')
             \<in> set (snd (search_videos failing_videos_env (U ''x'') 50))"
    by (simp add: failing_videos_trace)
  from 1 have "fst (search_videos failing_search_env (U ''x'') 50) = []"
    by (intro search_videos_remote_error [where e = HttpError] disjI1)
  moreover from 2 3 have "fst (search_videos failing_videos_env (U ''x'') 50) = []"
    by (intro search_videos_remote_error [where e = OtherError] disjI2 exI conjI)
  ultimately show ?thesis using 1 2 by simp
qed

text \<open>
  Claim C6. If the search call returns and the list of identifiers taken from its
  response is empty, \<open>search_videos\<close> returns the empty list at once: the only event
  is the search call, so the details call is never issued (and nothing is printed).
\<close>

theorem search_videos_no_ids:
  assumes "search_list env (search_request_for env keyword max_results) = Inr search_response"
    and "extract_video_ids search_response = Inr []"
  shows "search_videos env keyword max_results =
           ([], [SearchCall (search_request_for env keyword max_results)])
         \<and> (\<forall>part ids. VideosCall part ids \<notin> set (snd (search_videos env keyword max_results)))"
  using assms by (simp add: search_videos_def Let_def)

theorem search_videos_no_ids_witness:
  "search_videos empty_search_env (U ''x'') 50 =
     ([], [SearchCall (search_request_for empty_search_env (U ''x'') 50)])
   \<and> (\<forall>part ids. VideosCall part ids \<notin> set (snd (search_videos empty_search_env (U ''x'') 50)))"
proof -
  have 1: "search_list empty_search_env (search_request_for empty_search_env (U ''x'') 50)
             = Inr (PDict [(U ''items'', PList [])])"
    by (simp add: empty_search_env_def empty_search_list_def)
  have 2: "extract_video_ids (PDict [(U ''items'', PList [])]) = Inr []"
    by (simp add: extract_video_ids_def bind_result_def)
  from search_videos_no_ids [OF 1 2] show ?thesis .
qed

section \<open>Results on the trend ranker\<close>

text \<open>Every record that \<open>search_videos\<close> returns has exactly the eight keys.\<close>

lemma video_info_keys: "video_info env video = Inr d \<Longrightarrow> map fst d = video_keys"
  unfolding video_info_def bind_result_Inr video_keys_def
  by (elim exE conjE) auto

lemma video_infos_keys: "video_infos env items = Inr ds \<Longrightarrow> d \<in> set ds \<Longrightarrow> map fst d = video_keys"
  by (induction items arbitrary: ds) (auto simp add: bind_result_Inr dest: video_info_keys)

lemma search_videos_keys:
  assumes "d \<in> set (fst (search_videos env keyword max_results))"
  shows "map fst d = video_keys"
  using assms
  by (auto simp add: search_videos_def Let_def fst_handle_error extract_videos_def bind_result_Inr
        split: sum.splits if_splits dest: video_infos_keys)

text \<open>Assigning to a key that is not there appends the entry.\<close>

lemma update_fresh: "k \<notin> set (map fst d) \<Longrightarrow> AList.update k v d = d @ [(k, v)]"
  by (induction d) auto

text \<open>The loop gives each record the score computed for it at its own reading of the clock.\<close>

lemma attach_scores_nth:
  "attach_scores env i videos = Inr scored \<Longrightarrow>
     length scored = length videos \<and>
     (\<forall>j < length videos. \<exists>p. calculate_trending_score env (clock env (i + j)) (videos ! j) = Inr p
          \<and> scored ! j = AList.update (U ''trending_score'') p (videos ! j))"
proof (induction videos arbitrary: i scored)
  case Nil
  then show ?case by simp
next
  case (Cons v vs)
  from Cons.prems obtain p rest where p: "calculate_trending_score env (clock env i) v = Inr p"
    and rest: "attach_scores env (Suc i) vs = Inr rest"
    and scored: "scored = AList.update (U ''trending_score'') p v # rest"
    by (auto simp add: bind_result_Inr)
  from Cons.IH [OF rest] have len: "length rest = length vs"
    and nth: "\<And>j. j < length vs \<Longrightarrow> \<exists>q. calculate_trending_score env (clock env (Suc i + j)) (vs ! j) = Inr q
          \<and> rest ! j = AList.update (U ''trending_score'') q (vs ! j)"
    by auto
  show ?case
  proof (intro conjI allI impI)
    show "length scored = length (v # vs)" using len scored by simp
  next
    fix j assume j: "j < length (v # vs)"
    show "\<exists>p. calculate_trending_score env (clock env (i + j)) ((v # vs) ! j) = Inr p
          \<and> scored ! j = AList.update (U ''trending_score'') p ((v # vs) ! j)"
    proof (cases j)
      case 0
      with p scored show ?thesis by simp
    next
      case (Suc j')
      with j have "j' < length vs" by simp
      from nth [OF this] Suc scored show ?thesis by simp
    qed
  qed
qed

lemma score_is_number: "calculate_trending_score env now video = Inr p \<Longrightarrow> \<exists>x. as_number p = Some x"
  by (auto dest: calculate_trending_score_shape)

lemma trending_key_update:
  "as_number p = Some x \<Longrightarrow> trending_key (AList.update (U ''trending_score'') p v) = x"
  by (simp add: trending_key_def update_conv')

text \<open>The comprehension, when it does not raise, is a filter.\<close>

lemma keep_trending_Cons:
  assumes "keep_trending m (r # rs) = Inr kept"
  obtains x score rest where "map_of r (U ''trending_score'') = Some x"
    and "as_number x = Some score" and "keep_trending m rs = Inr rest"
    and "kept = (if m \<le> score then r # rest else rest)"
proof -
  from assms obtain x where x: "map_of r (U ''trending_score'') = Some x"
    and c: "(case as_number x of None \<Rightarrow> Inl TypeError
             | Some score \<Rightarrow> bind_result (keep_trending m rs)
                 (\<lambda>rest. Inr (if score \<ge> m then r # rest else rest))) = Inr kept"
    unfolding keep_trending.simps bind_result_Inr dict_getitem_Inr by blast
  from c obtain score where s: "as_number x = Some score"
    by (cases "as_number x") simp_all
  with c have "bind_result (keep_trending m rs)
                 (\<lambda>rest. Inr (if score \<ge> m then r # rest else rest)) = Inr kept"
    by simp
  then obtain rest where "keep_trending m rs = Inr rest"
    and "kept = (if m \<le> score then r # rest else rest)"
    unfolding bind_result_Inr by auto
  with x s that show thesis by blast
qed

lemma keep_trending_filter:
  "keep_trending m scored = Inr kept \<Longrightarrow> kept = filter (\<lambda>r. m \<le> trending_key r) scored"
proof (induction scored arbitrary: kept)
  case Nil
  then show ?case by simp
next
  case (Cons r rs)
  from Cons.prems obtain x score rest where x: "map_of r (U ''trending_score'') = Some x"
    and s: "as_number x = Some score" and rest: "keep_trending m rs = Inr rest"
    and kept: "kept = (if m \<le> score then r # rest else rest)"
    by (rule keep_trending_Cons)
  from x s have "trending_key r = score" by (simp add: trending_key_def)
  with Cons.IH [OF rest] kept show ?case by simp
qed

text \<open>\<open>sorted\<close> with \<open>reverse=True\<close>: a stable rearrangement into non-increasing order.\<close>

lemma sorted_reverse_mset: "mset (sorted_reverse f xs) = mset xs"
  by (simp add: sorted_reverse_def)

lemma sorted_reverse_set: "set (sorted_reverse f xs) = set xs"
  by (simp add: sorted_reverse_def)

lemma sorted_reverse_sorted: "sorted_wrt (\<lambda>a b. f a \<ge> f b) (sorted_reverse f xs)"
proof -
  have "sorted (map f (sort_key f (rev xs)))" by (rule sorted_sort_key)
  then have "sorted_wrt (\<lambda>a b. f a \<le> f b) (sort_key f (rev xs))"
    by (simp add: sorted_wrt_map)
  then show ?thesis
    by (simp add: sorted_reverse_def sorted_wrt_rev)
qed

lemma sorted_reverse_stable:
  "filter (\<lambda>y. f y = k) (sorted_reverse f xs) = filter (\<lambda>y. f y = k) xs"
  by (simp add: sorted_reverse_def rev_filter [symmetric] sort_key_stable)

text \<open>What a returning call of \<open>find_trending_videos\<close> has computed on the way.\<close>

lemma find_trending_videos_Inr:
  assumes "fst (find_trending_videos env keyword max_results min_score) = Inr out"
  obtains scored where
    "attach_scores env 1 (fst (search_videos env keyword max_results)) = Inr scored"
    and "out = sorted_reverse trending_key (filter (\<lambda>r. min_score \<le> trending_key r) scored)"
proof -
  obtain videos trace where sv: "search_videos env keyword max_results = (videos, trace)"
    by (cases "search_videos env keyword max_results")
  with assms obtain scored kept where a: "attach_scores env 1 videos = Inr scored"
    and k: "keep_trending min_score scored = Inr kept"
    and o: "out = sorted_reverse trending_key kept"
    by (auto simp add: find_trending_videos_def bind_result_Inr)
  from keep_trending_filter [OF k] a o sv that show thesis by simp
qed

text \<open>
  \<open>find_trending_videos\<close> returns whenever every record from \<open>search_videos\<close> has a
  \<open>published_at\<close> that parses and a view count that a float can hold: the scores
  attached by the loop are numbers, so neither the loop nor the comprehension
  raises.
\<close>

lemma calculate_trending_score_returns:
  assumes "parsable env video" and "int_view_count video"
  shows "\<exists>p. calculate_trending_score env now video = Inr p"
  using assms
  by (auto simp add: parsable_def int_view_count_def calculate_trending_score_def
        dict_getitem_def Let_def)

lemma attach_scores_returns:
  assumes "\<forall>v \<in> set videos. parsable env v \<and> int_view_count v"
  shows "\<exists>scored. attach_scores env i videos = Inr scored"
  using assms
proof (induction videos arbitrary: i)
  case Nil
  then show ?case by simp
next
  case (Cons v vs)
  from Cons.prems obtain p where p: "calculate_trending_score env (clock env i) v = Inr p"
    using calculate_trending_score_returns by fastforce
  from Cons.prems Cons.IH [of "Suc i"] obtain rest where "attach_scores env (Suc i) vs = Inr rest"
    by auto
  with p show ?case by (simp add: bind_result_def)
qed

lemma keep_trending_returns:
  "attach_scores env i videos = Inr scored \<Longrightarrow> \<exists>kept. keep_trending m scored = Inr kept"
proof (induction videos arbitrary: i scored)
  case Nil
  then show ?case by simp
next
  case (Cons v vs)
  from Cons.prems obtain p rest where p: "calculate_trending_score env (clock env i) v = Inr p"
    and rest: "attach_scores env (Suc i) vs = Inr rest"
    and scored: "scored = AList.update (U ''trending_score'') p v # rest"
    by (auto simp add: bind_result_Inr)
  from score_is_number [OF p] obtain x where x: "as_number p = Some x" ..
  from Cons.IH [OF rest] obtain kept where kept: "keep_trending m rest = Inr kept" ..
  have "dict_getitem (AList.update (U ''trending_score'') p v) (U ''trending_score'') = Inr p"
    by (simp add: dict_getitem_def update_conv')
  with x kept scored show ?case
    by (simp add: bind_result_def)
qed

lemma find_trending_videos_returns:
  assumes "\<forall>v \<in> set (fst (search_videos env keyword max_results)).
             parsable env v \<and> int_view_count v"
  shows "\<exists>out. fst (find_trending_videos env keyword max_results min_score) = Inr out"
proof -
  obtain videos trace where sv: "search_videos env keyword max_results = (videos, trace)"
    by (cases "search_videos env keyword max_results")
  with assms have "\<forall>v \<in> set videos. parsable env v \<and> int_view_count v"
    by simp
  then obtain scored where a: "attach_scores env 1 videos = Inr scored"
    using attach_scores_returns by blast
  from keep_trending_returns [OF a] obtain kept where "keep_trending min_score scored = Inr kept" ..
  with a sv show ?thesis
    by (simp add: find_trending_videos_def bind_result_def)
qed

text \<open>The sample service: both videos are scored half a day after publication.\<close>

lemma sample_clock_days: "days_between (clock sample_env i) sample_epoch = 1 / 2"
  by (simp add: sample_env_def sample_clock_def days_between_def)

lemma sample_score_A:
  "calculate_trending_score sample_env (clock sample_env i) sample_video = Inr (PFloat 60000)"
  using sample_published_at sample_parse sample_view_count
  by (simp add: calculate_trending_score_def dict_getitem_def Let_def sample_clock_days
        TRENDING_PERIOD_DAYS_def float_overflows_20000)

lemma sample_score_B:
  "calculate_trending_score sample_env (clock sample_env i) sample_video_B = Inr (PFloat 0)"
proof -
  have 1: "map_of sample_video_B (U ''published_at'') = Some (PStr (U ''2024-01-01T00:00:00Z''))"
    by (simp add: sample_video_B_def)
  have 2: "map_of sample_video_B (U ''view_count'') = Some (PInt 0)"
    by (simp add: sample_video_B_def)
  from 1 2 sample_parse show ?thesis
    by (simp add: calculate_trending_score_def dict_getitem_def Let_def sample_clock_days
          TRENDING_PERIOD_DAYS_def float_overflows_0)
qed

lemma sample_update_A:
  "AList.update (U ''trending_score'') (PFloat 60000) sample_video = sample_scored"
  by (simp add: sample_video_def sample_scored_def)

lemma sample_update_B:
  "AList.update (U ''trending_score'') (PFloat 0) sample_video_B = sample_scored_B"
  by (simp add: sample_video_B_def sample_scored_B_def)

lemma sample_attach_scores:
  "attach_scores sample_env 1 [sample_video_B, sample_video] = Inr [sample_scored_B, sample_scored]"
  by (simp only: attach_scores.simps bind_result_def sample_score_A sample_score_B sum.case
        sample_update_A sample_update_B)

lemma sample_key_A: "trending_key sample_scored = 60000"
  by (simp add: trending_key_def sample_scored_def sample_video_def)

lemma sample_key_B: "trending_key sample_scored_B = 0"
  by (simp add: trending_key_def sample_scored_B_def sample_video_B_def)

lemma sample_item_A: "dict_getitem sample_scored (U ''trending_score'') = Inr (PFloat 60000)"
  by (simp add: dict_getitem_def sample_scored_def sample_video_def)

lemma sample_item_B:
  "dict_getitem sample_scored_B (U ''trending_score'') = Inr (PFloat 0)"
  by (simp add: dict_getitem_def sample_scored_B_def sample_video_B_def)

lemma sample_find_all:
  "fst (find_trending_videos sample_env keyword max_results 0)
     = Inr [sample_scored, sample_scored_B]"
  apply (simp only: find_trending_videos_def sample_search_videos Let_def prod.case fst_conv
      sample_attach_scores bind_result_def sum.case keep_trending.simps sample_item_A
      sample_item_B as_number.simps option.case)
  apply (simp add: sorted_reverse_def sample_key_A sample_key_B)
  done

lemma sample_find_default:
  "fst (find_trending_videos sample_env keyword max_results 1000) = Inr [sample_scored]"
  apply (simp only: find_trending_videos_def sample_search_videos Let_def prod.case fst_conv
      sample_attach_scores bind_result_def sum.case keep_trending.simps sample_item_A
      sample_item_B as_number.simps option.case)
  apply (simp add: sorted_reverse_def)
  done

text \<open>
  Claim C3. When \<open>find_trending_videos\<close> returns, no record of its list has a
  trending score below \<open>min_score\<close>; the list is in non-increasing order of
  trending score; it holds, each as often as the scored list does, exactly the
  scored records whose score is at least \<open>min_score\<close>; and every record from
  \<open>search_videos\<close> has been scored by \<open>calculate_trending_score\<close> and, with that
  score attached, is in the list if the score is at least \<open>min_score\<close>.
\<close>

theorem find_trending_videos_ranked:
  assumes "fst (find_trending_videos env keyword max_results min_score) = Inr out"
  shows "(\<forall>r \<in> set out. \<not> trending_key r < min_score)
       \<and> sorted_wrt (\<lambda>a b. trending_key a \<ge> trending_key b) out
       \<and> (\<exists>scored. attach_scores env 1 (fst (search_videos env keyword max_results)) = Inr scored
             \<and> mset out = mset (filter (\<lambda>r. min_score \<le> trending_key r) scored))
       \<and> (\<forall>j < length (fst (search_videos env keyword max_results)).
             \<exists>p x. calculate_trending_score env (clock env (Suc j))
                      (fst (search_videos env keyword max_results) ! j) = Inr p
                 \<and> as_number p = Some x
                 \<and> trending_key (AList.update (U ''trending_score'') p
                      (fst (search_videos env keyword max_results) ! j)) = x
                 \<and> (min_score \<le> x \<longrightarrow>
                      AList.update (U ''trending_score'') p
                        (fst (search_videos env keyword max_results) ! j) \<in> set out))"
proof -
  let ?videos = "fst (search_videos env keyword max_results)"
  let ?keep = "\<lambda>r. min_score \<le> trending_key r"
  from assms obtain scored where a: "attach_scores env 1 ?videos = Inr scored"
    and out: "out = sorted_reverse trending_key (filter ?keep scored)"
    by (rule find_trending_videos_Inr)
  have set_out: "set out = {r \<in> set scored. ?keep r}"
    using out by (simp add: sorted_reverse_set)
  have 1: "\<forall>r \<in> set out. \<not> trending_key r < min_score"
    using set_out by auto
  have 2: "sorted_wrt (\<lambda>a b. trending_key a \<ge> trending_key b) out"
    using out by (simp add: sorted_reverse_sorted)
  have 3: "mset out = mset (filter ?keep scored)"
    using out by (simp only: sorted_reverse_mset)
  have 4: "\<exists>p x. calculate_trending_score env (clock env (Suc j)) (?videos ! j) = Inr p
                 \<and> as_number p = Some x
                 \<and> trending_key (AList.update (U ''trending_score'') p (?videos ! j)) = x
                 \<and> (min_score \<le> x \<longrightarrow>
                      AList.update (U ''trending_score'') p (?videos ! j) \<in> set out)"
    if j: "j < length ?videos" for j
  proof -
    from attach_scores_nth [OF a] j obtain p
      where p: "calculate_trending_score env (clock env (Suc j)) (?videos ! j) = Inr p"
        and s: "scored ! j = AList.update (U ''trending_score'') p (?videos ! j)"
        and len: "length scored = length ?videos"
      by auto
    from score_is_number [OF p] obtain x where x: "as_number p = Some x" ..
    have key: "trending_key (AList.update (U ''trending_score'') p (?videos ! j)) = x"
      using x by (rule trending_key_update)
    have "scored ! j \<in> set scored" using j len by simp
    with s key set_out
    have "min_score \<le> x \<longrightarrow> AList.update (U ''trending_score'') p (?videos ! j) \<in> set out"
      by simp
    with p x key show ?thesis by blast
  qed
  from 1 2 3 4 a show ?thesis by blast
qed

theorem find_trending_videos_ranked_witness:
  "fst (find_trending_videos sample_env (U ''x'') 50 0) = Inr [sample_scored, sample_scored_B]
   \<and> fst (search_videos sample_env (U ''x'') 50) = [sample_video_B, sample_video]
   \<and> trending_key sample_scored = 60000 \<and> trending_key sample_scored_B = 0
   \<and> \<not> trending_key sample_scored < 0 \<and> \<not> trending_key sample_scored_B < 0
   \<and> sorted_wrt (\<lambda>a b. trending_key a \<ge> trending_key b) [sample_scored, sample_scored_B]"
  using find_trending_videos_ranked [OF sample_find_all [of "U ''x''" 50]]
    sample_find_all [of "U ''x''" 50] sample_key_A sample_key_B
  by (simp add: sample_search_videos)

text \<open>
  Claim C10. Every record in the list that \<open>find_trending_videos\<close> returns is a
  record \<open>v\<close> of the list that \<open>search_videos\<close> returned in the same call, which
  has the eight keys \<open>video_id\<close>, \<open>title\<close>, \<open>channel_title\<close>, \<open>published_at\<close>,
  \<open>view_count\<close>, \<open>like_count\<close>, \<open>duration\<close> and \<open>url\<close> and no \<open>trending_score\<close>,
  with one entry appended: \<open>trending_score\<close>, holding the score computed for \<open>v\<close>.
  Every other key reads as it does in \<open>v\<close>.
\<close>

theorem find_trending_videos_frame:
  assumes "fst (find_trending_videos env keyword max_results min_score) = Inr out"
    and "r \<in> set out"
  shows "\<exists>v \<in> set (fst (search_videos env keyword max_results)). \<exists>p i.
           calculate_trending_score env (clock env i) v = Inr p
         \<and> map fst v = video_keys
         \<and> r = v @ [(U ''trending_score'', p)]
         \<and> map_of v (U ''trending_score'') = None
         \<and> map_of r (U ''trending_score'') = Some p
         \<and> (\<forall>k. k \<noteq> U ''trending_score'' \<longrightarrow> map_of r k = map_of v k)"
proof -
  let ?videos = "fst (search_videos env keyword max_results)"
  from assms(1) obtain scored where a: "attach_scores env 1 ?videos = Inr scored"
    and out: "out = sorted_reverse trending_key (filter (\<lambda>r. min_score \<le> trending_key r) scored)"
    by (rule find_trending_videos_Inr)
  from assms(2) out have "r \<in> set scored" by (simp add: sorted_reverse_set)
  then obtain j where j: "j < length scored" and r: "r = scored ! j"
    by (auto simp add: in_set_conv_nth)
  from attach_scores_nth [OF a] j obtain p
    where p: "calculate_trending_score env (clock env (1 + j)) (?videos ! j) = Inr p"
      and s: "scored ! j = AList.update (U ''trending_score'') p (?videos ! j)"
      and jv: "j < length ?videos"
    by auto
  let ?v = "?videos ! j"
  from jv have v: "?v \<in> set ?videos" by simp
  then have keys: "map fst ?v = video_keys" by (rule search_videos_keys)
  have fresh: "U ''trending_score'' \<notin> set (map fst ?v)"
    unfolding keys by (simp add: video_keys_def)
  from r s have app: "r = ?v @ [(U ''trending_score'', p)]"
    by (simp only: update_fresh [OF fresh])
  from fresh have none: "map_of ?v (U ''trending_score'') = None"
    by (simp add: map_of_eq_None_iff)
  have some: "map_of r (U ''trending_score'') = Some p"
    unfolding app using none by (simp add: map_add_def)
  have other: "\<forall>k. k \<noteq> U ''trending_score'' \<longrightarrow> map_of r k = map_of ?v k"
    unfolding app by (auto simp add: map_add_def split: option.splits)
  from v p keys app none some other show ?thesis by blast
qed

theorem find_trending_videos_frame_witness:
  "fst (find_trending_videos sample_env (U ''x'') 50 1000) = Inr [sample_scored]
   \<and> sample_scored \<in> set [sample_scored]
   \<and> (\<exists>v \<in> set (fst (search_videos sample_env (U ''x'') 50)). \<exists>p.
          map fst v = video_keys \<and> sample_scored = v @ [(U ''trending_score'', p)])"
proof -
  have r: "sample_scored \<in> set [sample_scored]" by simp
  from find_trending_videos_frame [OF sample_find_default [of "U ''x''" 50] r]
    sample_find_default [of "U ''x''" 50] r
  show ?thesis by blast
qed

section \<open>Results on the duration formatter\<close>

lemma is_digit_ascii: "48 \<le> c \<Longrightarrow> c \<le> 57 \<Longrightarrow> is_digit env c"
  by (simp add: is_digit_def digit_value_def)

lemma is_digit_letter: "57 < c \<Longrightarrow> c < 128 \<Longrightarrow> \<not> is_digit env c"
  by (simp add: is_digit_def digit_value_def)

lemma ascii_digits_all: "ascii_digits ds \<Longrightarrow> \<forall>c \<in> set ds. is_digit env c"
  by (simp add: ascii_digits_def is_digit_ascii)

lemma opt_group_match:
  assumes "ascii_digits ds" and "57 < u" and "u < 128"
  shows "opt_group env u (ds @ u # rest) = (Some ds, rest)"
proof -
  from assms have all: "\<forall>c \<in> set ds. is_digit env c" and nd: "\<not> is_digit env u"
    by (simp_all add: ascii_digits_all is_digit_letter)
  from all nd have t: "takeWhile (is_digit env) (ds @ u # rest) = ds"
    by (simp add: takeWhile_tail)
  from all nd have d: "dropWhile (is_digit env) (ds @ u # rest) = u # rest"
    by (simp add: dropWhile_append3)
  from assms(1) have "ds \<noteq> []" by (simp add: ascii_digits_def)
  with t d show ?thesis by (simp add: opt_group_def)
qed

lemma opt_group_other:
  assumes "ascii_digits ds" and "57 < u'" and "u' < 128" and "u' \<noteq> u"
  shows "opt_group env u (ds @ u' # rest) = (None, ds @ u' # rest)"
proof -
  from assms have all: "\<forall>c \<in> set ds. is_digit env c" and nd: "\<not> is_digit env u'"
    by (simp_all add: ascii_digits_all is_digit_letter)
  from all nd have d: "dropWhile (is_digit env) (ds @ u' # rest) = u' # rest"
    by (simp add: dropWhile_append3)
  with assms(4) show ?thesis by (simp add: opt_group_def)
qed

lemma opt_group_Nil: "opt_group env u [] = (None, [])"
  by (simp add: opt_group_def)

lemma int_of_digits_ascii:
  assumes "\<forall>c \<in> set ds. 48 \<le> c \<and> c \<le> 57"
  shows "foldl (\<lambda>acc c. 10 * acc + (case digit_value env c of None \<Rightarrow> 0 | Some d \<Rightarrow> d)) a ds
       = foldl (\<lambda>acc c. 10 * acc + (c - 48)) a ds"
  using assms by (induction ds arbitrary: a) (simp_all add: digit_value_def)

lemma group_int_ascii:
  "ascii_digits ds \<Longrightarrow> within_limit env (Some ds) \<Longrightarrow>
     group_int env (Some ds) = Inr (decimal_value ds)"
  by (auto simp add: group_int_def within_limit_def int_of_digits_def decimal_value_def
        ascii_digits_def int_of_digits_ascii)

lemma group_int_too_long:
  "\<not> within_limit env g \<Longrightarrow> group_int env g = Inl ValueError"
  by (cases g) (auto simp add: group_int_def within_limit_def)

lemma group_int_well_formed:
  "well_formed g \<Longrightarrow> within_limit env g \<Longrightarrow> group_int env g = Inr (component_value g)"
  by (cases g) (simp_all add: well_formed_def component_value_def group_int_ascii,
                simp add: group_int_def)

lemma str_of_nat_not_Nil: "str_of_nat n \<noteq> []"
  by (subst str_of_nat.simps) simp

lemma str_of_nat_small: "n < 10 \<Longrightarrow> str_of_nat n = [48 + n]"
  by (subst str_of_nat.simps) simp

lemma str_of_nat_large:
  "10 \<le> n \<Longrightarrow> str_of_nat n = str_of_nat (n div 10) @ [48 + n mod 10]"
  by (subst str_of_nat.simps) simp

text \<open>An input that does not start with \<open>PT\<close> is returned as it is.\<close>

lemma format_duration_no_PT: "\<not> prefix (U ''PT'') s \<Longrightarrow> format_duration env s = Inr s"
  by (simp add: format_duration_def)

lemma bind_result_cong: "(\<And>x. f x = g x) \<Longrightarrow> bind_result m f = bind_result m g"
  by (cases m) (simp_all add: bind_result_def)

text \<open>An input that starts with \<open>PT\<close> is rendered from the three groups.\<close>

lemma format_duration_unfold:
  "format_duration env (80 # 84 # s0) =
     (case opt_group env 72 s0 of (g1, s1) \<Rightarrow>
      case opt_group env 77 s1 of (g2, s2) \<Rightarrow>
      case opt_group env 83 s2 of (g3, s3) \<Rightarrow>
        bind_result (group_int env g1) (\<lambda>hours.
        bind_result (group_int env g2) (\<lambda>minutes.
        bind_result (group_int env g3) (\<lambda>seconds.
          let out = render hours unit_hours @ render minutes unit_minutes
                  @ render seconds unit_seconds
          in Inr (if out = [] then 48 # unit_seconds else out)))))"
  apply (simp add: format_duration_def Let_def split: prod.splits)
  apply (intro allI impI bind_result_cong)
  apply (simp add: render_def str_of_nat_not_Nil)
  done

lemma well_formed_groups:
  assumes "well_formed h" and "well_formed m" and "well_formed s"
  shows "opt_group env 72 (component h [72] @ component m [77] @ component s [83])
           = (h, component m [77] @ component s [83])"
    and "opt_group env 77 (component m [77] @ component s [83]) = (m, component s [83])"
    and "opt_group env 83 (component s [83]) = (s, [])"
  using assms
  by (cases h; cases m; cases s;
      simp add: component_def well_formed_def opt_group_match opt_group_other opt_group_Nil)+

text \<open>
  A duration in the expected notation, each of its components within the limit of
  the interpreter, is mapped to the renderings of its components that are not 0,
  or to the zero marker when there is none.
\<close>

lemma format_duration_well_formed:
  assumes "well_formed h" and "well_formed m" and "well_formed s"
    and "within_limit env h" and "within_limit env m" and "within_limit env s"
  shows "format_duration env
           (U ''PT'' @ component h (U ''H'') @ component m (U ''M'') @ component s (U ''S'')) =
         Inr (let out = render (component_value h) unit_hours
                      @ render (component_value m) unit_minutes
                      @ render (component_value s) unit_seconds
              in if out = [] then U ''0'' @ unit_seconds else out)"
  using assms
  by (simp add: format_duration_unfold well_formed_groups group_int_well_formed bind_result_def)

text \<open>With a component beyond the limit the call raises.\<close>

lemma format_duration_too_long:
  assumes "well_formed h" and "well_formed m" and "well_formed s"
    and "\<not> (within_limit env h \<and> within_limit env m \<and> within_limit env s)"
  shows "format_duration env
           (U ''PT'' @ component h (U ''H'') @ component m (U ''M'') @ component s (U ''S'')) =
         Inl ValueError"
proof -
  have "bind_result (group_int env h) (\<lambda>hours.
        bind_result (group_int env m) (\<lambda>minutes.
        bind_result (group_int env s) (\<lambda>seconds.
          let out = render hours unit_hours @ render minutes unit_minutes
                  @ render seconds unit_seconds
          in Inr (if out = [] then 48 # unit_seconds else out)))) = Inl ValueError"
  proof (cases "within_limit env h")
    case False
    then show ?thesis by (simp add: group_int_too_long bind_result_def)
  next
    case h: True
    show ?thesis
    proof (cases "within_limit env m")
      case False
      with h assms(1) show ?thesis
        by (simp add: group_int_too_long group_int_well_formed bind_result_def)
    next
      case True
      with h assms have "\<not> within_limit env s" by simp
      with h True assms(1,2) show ?thesis
        by (simp add: group_int_too_long group_int_well_formed bind_result_def)
    qed
  qed
  with assms(1-3) show ?thesis
    by (simp add: format_duration_unfold well_formed_groups)
qed

text \<open>The two examples of the documentation, with the default limit.\<close>

lemma format_duration_example:
  "format_duration sample_env (U ''PT1H2M10S'') =
     Inr (U ''1'' @ unit_hours @ U ''2'' @ unit_minutes @ U ''10'' @ unit_seconds)"
  by (simp add: format_duration_unfold opt_group_def is_digit_def digit_value_def
        group_int_def int_of_digits_def render_def str_of_nat_small str_of_nat_large
        unit_hours_def unit_minutes_def unit_seconds_def bind_result_def sample_env_def)

lemma format_duration_zero:
  "format_duration sample_env (U ''PT0S'') = Inr (U ''0'' @ unit_seconds)"
  by (simp add: format_duration_unfold opt_group_def is_digit_def digit_value_def
        group_int_def int_of_digits_def render_def str_of_nat_small str_of_nat_large
        unit_hours_def unit_minutes_def unit_seconds_def bind_result_def sample_env_def)

text \<open>
  Claim C9. The source returns its input unchanged when the pattern does not
  match, and so does pass through a string that is no duration, such as \<open>xyz\<close>.
  But the pattern is tried at the start of the string only and each of its groups
  is optional, so it matches every string that starts with \<open>PT\<close>: the input
  \<open>PTxyz\<close>, which is no duration either, is not returned unchanged but rendered
  as the zero marker.
\<close>

theorem format_duration_garbage_after_PT:
  "format_duration env (U ''PTxyz'') = Inr (U ''0'' @ unit_seconds)
   \<and> format_duration env (U ''xyz'') = Inr (U ''xyz'')"
  by (simp add: format_duration_unfold format_duration_no_PT opt_group_def is_digit_def
        digit_value_def group_int_def render_def unit_seconds_def bind_result_def)

end
